theory Spec2Isabelle
  imports Complex_Main
begin

section \<open>Data model\<close>

text \<open>
  The aim trainer keeps its whole session in the React state of the \<open>App\<close> component:
  the game state, the settings, the live targets, the remaining time and the statistics.
  JavaScript numbers that only ever hold counters are natural numbers here, time stamps and
  the countdown are integers, and coordinates, distances and ratios are real numbers (the
  rounding of IEEE doubles is not part of the model).
\<close>

datatype GameState = MENU | PLAYING | PAUSED | FINISHED

datatype Crosshair = CrosshairDot | CrosshairCross | CrosshairCircle | CrosshairPlus

datatype Language = LangEn | LangZh

type_synonym vec3 = "real \<times> real \<times> real"

record TargetData =
  target_id :: string
  position :: vec3
  createdAt :: int
  spawnTime :: int

record GameSettings =
  targetCount :: nat
  targetSize :: real
  duration :: int
  crosshair :: Crosshair
  sensitivity :: real
  language :: Language

record HitRecord =
  time :: int
  reactionTime :: int
  distance :: real

record ScoreStats =
  score :: nat
  shotsFired :: nat
  shotsHit :: nat
  accuracy :: real
  avgReactionTime :: real
  hitHistory :: "HitRecord list"

record Ray =
  origin :: vec3
  direction :: vec3

record App =
  gameState :: GameState
  settings :: GameSettings
  targets :: "TargetData list"
  timeLeft :: int
  stats :: ScoreStats

section \<open>Constants\<close>

definition SPAWN_AREA_WIDTH :: real where
  "SPAWN_AREA_WIDTH = 10"

definition SPAWN_AREA_HEIGHT :: real where
  "SPAWN_AREA_HEIGHT = 6"

definition SPAWN_DISTANCE :: real where
  "SPAWN_DISTANCE = 12"

definition TARGET_RADIUS :: real where
  "TARGET_RADIUS = 0.5"

definition DEFAULT_SETTINGS :: GameSettings where
  "DEFAULT_SETTINGS =
     \<lparr>targetCount = 3, targetSize = TARGET_RADIUS, duration = 60,
      crosshair = CrosshairDot, sensitivity = 1, language = LangZh\<rparr>"

section \<open>Target generation\<close>

text \<open>
  \<open>generateTarget\<close> reads the environment five times: \<open>Math.random()\<close> for x, for y and
  for the id, and \<open>Date.now()\<close> for \<open>createdAt\<close> and for \<open>spawnTime\<close>. A \<open>Draw\<close> holds
  the five readings of one call, in the order of the calls. The id reading is the string
  that \<open>Math.random().toString(36).substr(2, 9)\<close> produced; how a double is printed in
  base 36 is not modelled, so any string may come out of it (two draws may give the same
  string, and a draw of exactly 0 gives the empty string).
\<close>

record Draw =
  rand_x :: real
  rand_y :: real
  rand_id :: string
  now_created :: int
  now_spawn :: int

definition generateTarget :: "TargetData list \<Rightarrow> Draw \<Rightarrow> TargetData" where
  "generateTarget currentList d =
     (let x = (rand_x d - 0.5) * SPAWN_AREA_WIDTH;
          y = 1.2 + rand_y d * 2.5;
          z = - SPAWN_DISTANCE
      in \<lparr>target_id = rand_id d, position = (x, y, z),
          createdAt = now_created d, spawnTime = now_spawn d\<rparr>)"

section \<open>Ray and sphere tests of the 3D library\<close>

text \<open>
  \<open>handleShoot\<close> calls two functions of the three.js library, \<open>Ray.intersectsSphere\<close> and
  \<open>Vector3.distanceTo\<close>. They are written here over the reals as the library computes
  them: the squared distance from the ray to the centre (the distance to the origin when
  the centre lies behind the ray) is compared with the squared radius.
\<close>

fun distanceToSquared :: "vec3 \<Rightarrow> vec3 \<Rightarrow> real" where
  "distanceToSquared (ax, ay, az) (bx, by, bz) =
     (ax - bx) * (ax - bx) + (ay - by) * (ay - by) + (az - bz) * (az - bz)"

definition distanceTo :: "vec3 \<Rightarrow> vec3 \<Rightarrow> real" where
  "distanceTo a b = sqrt (distanceToSquared a b)"

fun subVectors :: "vec3 \<Rightarrow> vec3 \<Rightarrow> vec3" where
  "subVectors (ax, ay, az) (bx, by, bz) = (ax - bx, ay - by, az - bz)"

fun dot :: "vec3 \<Rightarrow> vec3 \<Rightarrow> real" where
  "dot (ax, ay, az) (bx, by, bz) = ax * bx + ay * by + az * bz"

fun addScaledVector :: "vec3 \<Rightarrow> vec3 \<Rightarrow> real \<Rightarrow> vec3" where
  "addScaledVector (ax, ay, az) (vx, vy, vz) s = (ax + vx * s, ay + vy * s, az + vz * s)"

definition distanceSqToPoint :: "Ray \<Rightarrow> vec3 \<Rightarrow> real" where
  "distanceSqToPoint ray point =
     (let directionDistance = dot (subVectors point (origin ray)) (direction ray)
      in if directionDistance < 0 then distanceToSquared (origin ray) point
         else distanceToSquared (addScaledVector (origin ray) (direction ray) directionDistance) point)"

definition intersectsSphere :: "Ray \<Rightarrow> vec3 \<Rightarrow> real \<Rightarrow> bool" where
  "intersectsSphere ray center radius = (distanceSqToPoint ray center \<le> radius * radius)"

section \<open>Hit resolution\<close>

text \<open>
  The \<open>forEach\<close> loop of \<open>handleShoot\<close> assigns three locals, \<open>hitId\<close>, \<open>hitTarget\<close> and
  \<open>minDistance\<close>, always together. Their initial values \<open>(null, null, Infinity)\<close> are
  \<open>None\<close>; after an assignment they are \<open>Some (hitId, hitTarget, minDistance)\<close>.
  The comparison \<open>distance < Infinity\<close> is true for every distance.
\<close>

type_synonym hit = "(string \<times> TargetData \<times> real) option"

definition resolve_step :: "Ray \<Rightarrow> real \<Rightarrow> hit \<Rightarrow> TargetData \<Rightarrow> hit" where
  "resolve_step ray sz acc target =
     (let sphereCenter = position target
      in if intersectsSphere ray sphereCenter (sz * 1.1) then
           (let distance = distanceTo sphereCenter (origin ray)
            in if (case acc of None \<Rightarrow> True | Some (_, _, minDistance) \<Rightarrow> distance < minDistance)
               then Some (target_id target, target, distance)
               else acc)
         else acc)"

definition resolve :: "Ray \<Rightarrow> TargetData list \<Rightarrow> real \<Rightarrow> hit" where
  "resolve ray ts sz = foldl (resolve_step ray sz) None ts"

text \<open>\<open>isHit = !!hitId\<close>: \<open>null\<close> and the empty string are falsy.\<close>

definition isHit :: "hit \<Rightarrow> bool" where
  "isHit r = (case r of None \<Rightarrow> False | Some (hitId, _, _) \<Rightarrow> hitId \<noteq> [])"

section \<open>Statistics\<close>

definition zeroStats :: ScoreStats where
  "zeroStats =
     \<lparr>score = 0, shotsFired = 0, shotsHit = 0, accuracy = 0, avgReactionTime = 0,
      hitHistory = []\<rparr>"

text \<open>
  The updater passed to \<open>setStats\<close>. It closes over the settings and the time left of the
  render in which the shot was fired, the time stamp of the shot and the locals of the loop.
\<close>

definition statsUpdater :: "GameSettings \<Rightarrow> int \<Rightarrow> int \<Rightarrow> hit \<Rightarrow> ScoreStats \<Rightarrow> ScoreStats" where
  "statsUpdater st tleft now r prev =
     (let newShots = shotsFired prev + 1;
          newHits = (if isHit r then shotsHit prev + 1 else shotsHit prev);
          (newHistory, newAvgReaction) =
            (case r of
               None \<Rightarrow> (hitHistory prev, avgReactionTime prev)
             | Some (hitId, hitTarget, minDistance) \<Rightarrow>
                 if hitId \<noteq> [] then
                   (let rt = now - spawnTime hitTarget;
                        nh = hitHistory prev @
                               [\<lparr>time = duration st - tleft, reactionTime = rt, distance = minDistance\<rparr>];
                        totalReaction = foldl (\<lambda>acc h. acc + reactionTime h) 0 nh
                    in (nh, real_of_int totalReaction / real (length nh)))
                 else (hitHistory prev, avgReactionTime prev))
      in prev\<lparr>shotsFired := newShots,
              shotsHit := newHits,
              accuracy := (if newShots > 0 then real newHits / real newShots * 100 else 0),
              score := score prev + (if isHit r then 100 else 0),
              avgReactionTime := newAvgReaction,
              hitHistory := newHistory\<rparr>)"

section \<open>Grade of the session report\<close>

datatype Grade = GradeS | GradeA | GradeB | GradeC | GradeD

definition grade :: "real \<Rightarrow> real \<Rightarrow> Grade" where
  "grade acc avgReaction =
     (if acc > 90 \<and> avgReaction < 350 then GradeS
      else if acc > 85 \<and> avgReaction < 450 then GradeA
      else if acc > 75 \<and> avgReaction < 550 then GradeB
      else if acc > 60 then GradeC
      else GradeD)"

definition scoreboardGrade :: "ScoreStats \<Rightarrow> Grade" where
  "scoreboardGrade st = grade (accuracy st) (avgReactionTime st)"

section \<open>Handlers of the application\<close>

definition initApp :: App where
  "initApp =
     \<lparr>gameState = MENU, settings = DEFAULT_SETTINGS, targets = [],
      timeLeft = duration DEFAULT_SETTINGS, stats = zeroStats\<rparr>"

definition handleKeyDown :: "string \<Rightarrow> App \<Rightarrow> App" where
  "handleKeyDown code s =
     (let isPauseKey = (code = ''Escape'' \<or> code = ''Space'')
      in if isPauseKey then
           (if gameState s = PLAYING then s\<lparr>gameState := PAUSED\<rparr>
            else if gameState s = PAUSED then s\<lparr>gameState := PLAYING\<rparr>
            else s)
         else s)"

text \<open>
  The timer effect installs the one-second interval only while the game state is
  \<open>PLAYING\<close> and clears it whenever the game state changes, so the interval callback runs
  in \<open>PLAYING\<close> states only.
\<close>

definition timerTick :: "App \<Rightarrow> App" where
  "timerTick s =
     (if gameState s = PLAYING then
        (if timeLeft s \<le> 1 then s\<lparr>gameState := FINISHED, timeLeft := 0\<rparr>
         else s\<lparr>timeLeft := timeLeft s - 1\<rparr>)
      else s)"

definition startGame :: "App \<Rightarrow> (nat \<Rightarrow> Draw) \<Rightarrow> App" where
  "startGame s rnd =
     s\<lparr>stats := zeroStats,
       timeLeft := duration (settings s),
       targets := map (\<lambda>i. generateTarget [] (rnd i)) [0..<targetCount (settings s)],
       gameState := PLAYING\<rparr>"

definition resumeGame :: "App \<Rightarrow> App" where
  "resumeGame s = s\<lparr>gameState := PLAYING\<rparr>"

definition quitToMenu :: "App \<Rightarrow> App" where
  "quitToMenu s = s\<lparr>gameState := MENU\<rparr>"

text \<open>The updater passed to \<open>setTargets\<close> when the shot has a truthy \<open>hitId\<close>.\<close>

definition targetsUpdater :: "string \<Rightarrow> Draw \<Rightarrow> TargetData list \<Rightarrow> TargetData list" where
  "targetsUpdater hitId d prev =
     (let remaining = filter (\<lambda>t. target_id t \<noteq> hitId) prev
      in remaining @ [generateTarget remaining d])"


text \<open>
  \<open>handleShoot\<close> is created anew in every render of \<open>App\<close>. It reads \<open>targets\<close>,
  \<open>settings\<close> and \<open>timeLeft\<close> of that render, here \<open>c\<close>: the loop runs over the targets of
  \<open>c\<close>, and the statistics updater closes over the settings and the time left of \<open>c\<close>.
  The two updaters that it passes to \<open>setStats\<close> and \<open>setTargets\<close> receive the latest
  state, here \<open>s\<close>, which is \<open>c\<close> only if nothing was updated since that render.
\<close>

definition handleShoot :: "App \<Rightarrow> App \<Rightarrow> Ray \<Rightarrow> int \<Rightarrow> Draw \<Rightarrow> App" where
  "handleShoot c s ray now d =
     (let r = resolve ray (targets c) (targetSize (settings c))
      in s\<lparr>stats := statsUpdater (settings c) (timeLeft c) now r (stats s),
           targets := (case r of
                         None \<Rightarrow> targets s
                       | Some (hitId, _, _) \<Rightarrow>
                           if hitId \<noteq> [] then targetsUpdater hitId d (targets s)
                           else targets s)\<rparr>)"

section \<open>The mousedown listener of the player\<close>

text \<open>
  \<open>Player\<close> attaches its mousedown listener in an effect that depends on \<open>gameState\<close> and
  \<open>onShoot\<close>: the effect of a render whose game state is not \<open>PLAYING\<close> attaches nothing,
  and the effect of a \<open>PLAYING\<close> render attaches a listener that calls the \<open>handleShoot\<close>
  of that render. The result is the render whose \<open>handleShoot\<close> a mousedown reaches, if any.
\<close>

definition playerEffect :: "App \<Rightarrow> App option" where
  "playerEffect s = (if gameState s \<noteq> PLAYING then None else Some s)"

text \<open>
  A session is the state of \<open>App\<close> together with the render that the attached listener
  belongs to. \<open>Player\<close> is a child of the \<open>Canvas\<close>, which renders its children with a
  renderer of its own once \<open>App\<close> has committed, so the listener can belong to an earlier
  render than the latest state. The keydown listener and the interval are effects of
  \<open>App\<close> itself and are taken to be in step with its state.
\<close>

record Session =
  app :: App
  shooter :: "App option"

definition initSession :: Session where
  "initSession = \<lparr>app = initApp, shooter = playerEffect initApp\<rparr>"

section \<open>Events\<close>

text \<open>
  Each event is one handler run. The buttons exist only in the overlays of their game
  states: the menu (settings and start) in \<open>MENU\<close>, resume, restart and the two menu
  buttons in \<open>PAUSED\<close>, play again and menu in \<open>FINISHED\<close>. The menu changes the
  language, the target count, the target size and the crosshair and nothing else.
  \<open>Shoot\<close> is a mousedown of the left button, with the ray from the camera through the
  centre of the screen; \<open>Commit\<close> is \<open>Player\<close> being rendered with the latest state of
  \<open>App\<close> and its effect run again.
\<close>

datatype Event =
    KeyDown string
  | ClickStart "nat \<Rightarrow> Draw"
  | ClickResume
  | ClickMenu
  | Tick
  | SetLanguage Language
  | SetTargetCount nat
  | SetTargetSize real
  | SetCrosshair Crosshair
  | Shoot Ray int Draw
  | Commit

definition inMenu :: "App \<Rightarrow> (GameSettings \<Rightarrow> GameSettings) \<Rightarrow> App" where
  "inMenu s f = (if gameState s = MENU then s\<lparr>settings := f (settings s)\<rparr> else s)"

fun step :: "Session \<Rightarrow> Event \<Rightarrow> Session" where
  "step s (KeyDown code) = s\<lparr>app := handleKeyDown code (app s)\<rparr>"
| "step s (ClickStart rnd) =
     (if gameState (app s) = PLAYING then s else s\<lparr>app := startGame (app s) rnd\<rparr>)"
| "step s ClickResume =
     (if gameState (app s) = PAUSED then s\<lparr>app := resumeGame (app s)\<rparr> else s)"
| "step s ClickMenu =
     (if gameState (app s) = PAUSED \<or> gameState (app s) = FINISHED
      then s\<lparr>app := quitToMenu (app s)\<rparr> else s)"
| "step s Tick = s\<lparr>app := timerTick (app s)\<rparr>"
| "step s (SetLanguage l) = s\<lparr>app := inMenu (app s) (\<lambda>g. g\<lparr>language := l\<rparr>)\<rparr>"
| "step s (SetTargetCount n) = s\<lparr>app := inMenu (app s) (\<lambda>g. g\<lparr>targetCount := n\<rparr>)\<rparr>"
| "step s (SetTargetSize r) = s\<lparr>app := inMenu (app s) (\<lambda>g. g\<lparr>targetSize := r\<rparr>)\<rparr>"
| "step s (SetCrosshair c) = s\<lparr>app := inMenu (app s) (\<lambda>g. g\<lparr>crosshair := c\<rparr>)\<rparr>"
| "step s (Shoot ray now d) =
     (case shooter s of
        None \<Rightarrow> s
      | Some c \<Rightarrow> s\<lparr>app := handleShoot c (app s) ray now d\<rparr>)"
| "step s Commit = s\<lparr>shooter := playerEffect (app s)\<rparr>"

definition run :: "Session \<Rightarrow> Event list \<Rightarrow> Session" where
  "run s evs = foldl step s evs"

section \<open>Runs and the conditions on the environment\<close>

text \<open>\<open>Math.random()\<close> returns a number in the half-open interval from 0 to 1.\<close>

definition unitDraw :: "Draw \<Rightarrow> bool" where
  "unitDraw d = (0 \<le> rand_x d \<and> rand_x d < 1 \<and> 0 \<le> rand_y d \<and> rand_y d < 1)"

text \<open>The draws that an event consumes in a state are all in range.\<close>

fun unitEvent :: "Session \<Rightarrow> Event \<Rightarrow> bool" where
  "unitEvent s (ClickStart rnd) = (\<forall>i < targetCount (settings (app s)). unitDraw (rnd i))"
| "unitEvent s (Shoot ray now d) = unitDraw d"
| "unitEvent s _ = True"

fun unitRun :: "Session \<Rightarrow> Event list \<Rightarrow> bool" where
  "unitRun s [] = True"
| "unitRun s (e # es) = (unitEvent s e \<and> unitRun (step s e) es)"

definition inSpawnBox :: "TargetData \<Rightarrow> bool" where
  "inSpawnBox t =
     (case position t of (x, y, z) \<Rightarrow>
        - 5 \<le> x \<and> x \<le> 5 \<and> 12 / 10 \<le> y \<and> y \<le> 37 / 10 \<and> z = - 12)"

text \<open>The ids of the live targets are pairwise distinct.\<close>

definition distinctIds :: "App \<Rightarrow> bool" where
  "distinctIds s = distinct (map target_id (targets s))"

section \<open>Invariants of a run\<close>

text \<open>The stored accuracy and the stored average are the ones their formulas give.\<close>

definition accuracyOk :: "ScoreStats \<Rightarrow> bool" where
  "accuracyOk st =
     (accuracy st =
        (if 0 < shotsFired st then real (shotsHit st) / real (shotsFired st) * 100 else 0))"

definition averageOk :: "ScoreStats \<Rightarrow> bool" where
  "averageOk st =
     (length (hitHistory st) = shotsHit st \<and>
      avgReactionTime st =
        (if hitHistory st = [] then 0
         else real_of_int (sum_list (map reactionTime (hitHistory st))) /
              real (length (hitHistory st))))"

text \<open>
  The duration is never changed, no state has a negative time left, and while a session is
  being played or is paused at least one second is left.
\<close>

definition timeOk :: "App \<Rightarrow> bool" where
  "timeOk s =
     (duration (settings s) = 60 \<and> 0 \<le> timeLeft s \<and>
      (gameState s = PLAYING \<or> gameState s = PAUSED \<longrightarrow> 1 \<le> timeLeft s))"

section \<open>Concrete sessions\<close>

text \<open>
  A draw that places a target at height 2 (\<open>1.2 + 0.32 * 2.5\<close>), a ray that leaves the
  point \<open>(x, 2, 5)\<close> straight towards the back wall, and a ray that points straight up.
\<close>

definition mkDraw :: "real \<Rightarrow> string \<Rightarrow> int \<Rightarrow> Draw" where
  "mkDraw rx i t = \<lparr>rand_x = rx, rand_y = 8 / 25, rand_id = i, now_created = t, now_spawn = t\<rparr>"

definition aimAt :: "real \<Rightarrow> Ray" where
  "aimAt x = \<lparr>origin = (x, 2, 5), direction = (0, 0, - 1)\<rparr>"

definition aimUp :: Ray where
  "aimUp = \<lparr>origin = (0, 2, 5), direction = (0, 1, 0)\<rparr>"

text \<open>Three targets at x = -2, 0 and 2, spawned at time 0.\<close>

definition scenarioStart :: "nat \<Rightarrow> Draw" where
  "scenarioStart i =
     (if i = 0 then mkDraw (3 / 10) ''a'' 0
      else if i = 1 then mkDraw (1 / 2) ''b'' 0
      else mkDraw (7 / 10) ''c'' 0)"

text \<open>
  Ten shots, seven of them hits, in a session with the default settings (three targets,
  sixty seconds). \<open>Player\<close> is rendered again after the start and after every shot. Each
  replacement appears where the target it replaces was.
\<close>

definition scenario :: "Event list" where
  "scenario =
     [ClickStart scenarioStart, Commit,
      Shoot aimUp 100 (mkDraw (1 / 2) ''m'' 100), Commit,
      Shoot (aimAt (- 2)) 200 (mkDraw (3 / 10) ''d'' 200), Commit,
      Shoot (aimAt 0) 250 (mkDraw (1 / 2) ''e'' 250), Commit,
      Shoot (aimAt 2) 300 (mkDraw (7 / 10) ''f'' 300), Commit,
      Shoot (aimAt (- 2)) 350 (mkDraw (3 / 10) ''g'' 350), Commit,
      Shoot aimUp 400 (mkDraw (1 / 2) ''n'' 400), Commit,
      Shoot (aimAt 0) 650 (mkDraw (1 / 2) ''h'' 650), Commit,
      Shoot (aimAt (- 2)) 700 (mkDraw (3 / 10) ''i'' 700), Commit,
      Shoot aimUp 800 (mkDraw (1 / 2) ''o'' 800), Commit,
      Shoot (aimAt 0) 930 (mkDraw (1 / 2) ''j'' 930), Commit]"

text \<open>
  A session in which two mousedowns follow each other before \<open>Player\<close> is rendered again:
  the start, the render that attaches the listener, a first shot at the middle target and,
  30 milliseconds later, a second shot along the same ray.
\<close>

definition firstShot :: "Event list" where
  "firstShot =
     [ClickStart scenarioStart, Commit, Shoot (aimAt 0) 200 (mkDraw (1 / 2) ''e'' 200)]"

definition staleRun :: "Event list" where
  "staleRun = firstShot @ [Shoot (aimAt 0) 230 (mkDraw (1 / 2) ''k'' 230)]"

text \<open>
  Two of the three initial targets draw the same id (\<open>Math.random()\<close> returning 0.5 prints
  as \<open>0.i\<close> in base 36, whose characters from position 2 are \<open>i\<close>); one shot at the
  middle target follows.
\<close>

definition collidingStart :: "nat \<Rightarrow> Draw" where
  "collidingStart i =
     (if i = 0 then mkDraw (3 / 10) ''a'' 0
      else if i = 1 then mkDraw (1 / 2) ''i'' 0
      else mkDraw (7 / 10) ''i'' 0)"

definition collisionRun :: "Event list" where
  "collisionRun =
     [ClickStart collidingStart, Commit, Shoot (aimAt 0) 200 (mkDraw (1 / 2) ''k'' 200)]"

text \<open>
  The middle one of the three initial targets draws the empty id (\<open>Math.random()\<close>
  returning 0 prints as \<open>0\<close> in base 36, which has no characters from position 2 on); one
  shot at the middle target follows.
\<close>

definition emptyIdStart :: "nat \<Rightarrow> Draw" where
  "emptyIdStart i =
     (if i = 0 then mkDraw (3 / 10) ''a'' 0
      else if i = 1 then mkDraw (1 / 2) [] 0
      else mkDraw (7 / 10) ''c'' 0)"

definition emptyIdRun :: "Event list" where
  "emptyIdRun =
     [ClickStart emptyIdStart, Commit, Shoot (aimAt 0) 250 (mkDraw (1 / 2) ''e'' 250)]"

text \<open>A session that is 18 seconds old: 42 of its 60 seconds are left.\<close>

definition eighteenSeconds :: "Event list" where
  "eighteenSeconds = ClickStart scenarioStart # Commit # replicate 18 Tick"

text \<open>
  Three targets on the back wall at x = 0.3, 0 and 2. A ray from \<open>(0, 2, 5)\<close> straight
  ahead meets the spheres of the first two; the centre of the second is the closer one.
\<close>

definition lineUp :: "TargetData list" where
  "lineUp =
     [generateTarget [] (mkDraw (53 / 100) ''p'' 0),
      generateTarget [] (mkDraw (1 / 2) ''q'' 0),
      generateTarget [] (mkDraw (7 / 10) ''r'' 0)]"

text \<open>A session whose settings give a duration of five seconds.\<close>

definition fiveSeconds :: Session where
  "fiveSeconds = initSession\<lparr>app := initApp\<lparr>settings := DEFAULT_SETTINGS\<lparr>duration := 5\<rparr>\<rparr>\<rparr>"

section \<open>Facts about the hit resolution loop\<close>

lemma resolve_Nil: "resolve ray [] sz = None"
  by (simp add: resolve_def)

lemma resolve_snoc: "resolve ray (ts @ [t]) sz = resolve_step ray sz (resolve ray ts sz) t"
  by (simp add: resolve_def)

lemma resolve_None_iff:
  "resolve ray ts sz = None \<longleftrightarrow>
     (\<forall>t\<in>set ts. \<not> intersectsSphere ray (position t) (sz * 1.1))"
proof (induction ts rule: rev_induct)
  case Nil
  show ?case by (simp add: resolve_Nil)
next
  case (snoc t ts)
  show ?case
    using snoc.IH
    by (auto simp: resolve_snoc resolve_step_def Let_def split: option.splits)
qed

lemma resolve_Some:
  "resolve ray ts sz = Some (hid, t, d) \<Longrightarrow>
     t \<in> set ts \<and> hid = target_id t \<and> d = distanceTo (position t) (origin ray) \<and>
     intersectsSphere ray (position t) (sz * 1.1) \<and>
     (\<forall>u\<in>set ts. intersectsSphere ray (position u) (sz * 1.1) \<longrightarrow>
        d \<le> distanceTo (position u) (origin ray))"
proof (induction ts arbitrary: hid t d rule: rev_induct)
  case Nil
  then show ?case by (simp add: resolve_Nil)
next
  case (snoc x xs)
  show ?case
  proof (cases "resolve ray xs sz")
    case None
    then have "\<forall>u\<in>set xs. \<not> intersectsSphere ray (position u) (sz * 1.1)"
      by (simp add: resolve_None_iff)
    with snoc.prems None show ?thesis
      by (auto simp: resolve_snoc resolve_step_def Let_def split: if_splits)
  next
    case (Some p)
    obtain hid0 t0 d0 where p: "p = (hid0, t0, d0)" by (cases p)
    note ih = snoc.IH [OF Some [unfolded p]]
    from snoc.prems Some p ih show ?thesis
      by (auto simp: resolve_snoc resolve_step_def Let_def split: if_splits)
  qed
qed

section \<open>What each handler changes\<close>

lemma handleShoot_frame:
  "gameState (handleShoot c s ray now d) = gameState s"
  "settings (handleShoot c s ray now d) = settings s"
  "timeLeft (handleShoot c s ray now d) = timeLeft s"
  "stats (handleShoot c s ray now d) =
     statsUpdater (settings c) (timeLeft c) now
       (resolve ray (targets c) (targetSize (settings c))) (stats s)"
  by (simp_all add: handleShoot_def Let_def)

lemma handleShoot_targets:
  "targets (handleShoot c s ray now d) =
     (case resolve ray (targets c) (targetSize (settings c)) of
        None \<Rightarrow> targets s
      | Some (hitId, _, _) \<Rightarrow>
          if hitId \<noteq> [] then targetsUpdater hitId d (targets s) else targets s)"
  by (simp add: handleShoot_def Let_def)

lemma handleKeyDown_frame:
  "settings (handleKeyDown c s) = settings s"
  "targets (handleKeyDown c s) = targets s"
  "timeLeft (handleKeyDown c s) = timeLeft s"
  "stats (handleKeyDown c s) = stats s"
  by (simp_all add: handleKeyDown_def Let_def)

lemma timerTick_frame:
  "settings (timerTick s) = settings s"
  "targets (timerTick s) = targets s"
  "stats (timerTick s) = stats s"
  by (simp_all add: timerTick_def)

lemma inMenu_frame:
  "gameState (inMenu s f) = gameState s"
  "targets (inMenu s f) = targets s"
  "timeLeft (inMenu s f) = timeLeft s"
  "stats (inMenu s f) = stats s"
  by (simp_all add: inMenu_def)

lemma run_Nil: "run s [] = s"
  by (simp add: run_def)

lemma run_Cons: "run s (e # es) = run (step s e) es"
  by (simp add: run_def)

lemma run_snoc: "run s (es @ [e]) = step (run s es) e"
  by (simp add: run_def)


lemmas model_defs = run_def initSession_def playerEffect_def initApp_def DEFAULT_SETTINGS_def
  TARGET_RADIUS_def startGame_def handleShoot_def resolve_def resolve_step_def
  intersectsSphere_def distanceSqToPoint_def distanceTo_def generateTarget_def
  SPAWN_AREA_WIDTH_def SPAWN_DISTANCE_def statsUpdater_def targetsUpdater_def isHit_def
  zeroStats_def Let_def

lemmas session_defs = scenario_def scenarioStart_def mkDraw_def aimAt_def aimUp_def
  collisionRun_def collidingStart_def firstShot_def staleRun_def emptyIdRun_def
  emptyIdStart_def

lemma sqrt_289: "sqrt 289 = 17"
  by (rule real_sqrt_unique) simp_all

section \<open>The live-target count\<close>

lemma filter_distinct_one:
  "distinct (map f xs) \<Longrightarrow> x \<in> set xs \<Longrightarrow>
     length (filter (\<lambda>t. f t \<noteq> f x) xs) = length xs - 1"
proof (induction xs)
  case Nil
  then show ?case by simp
next
  case (Cons a xs)
  show ?case
  proof (cases "f a = f x")
    case True
    with Cons.prems have "\<forall>t\<in>set xs. f t \<noteq> f x" by (auto simp: image_iff)
    then have "filter (\<lambda>t. f t \<noteq> f x) xs = xs" by (simp add: filter_id_conv)
    with True show ?thesis by simp
  next
    case False
    with Cons.prems have "x \<in> set xs" by auto
    with Cons have "length (filter (\<lambda>t. f t \<noteq> f x) xs) = length xs - 1" by simp
    moreover from \<open>x \<in> set xs\<close> have "length xs > 0" by (cases xs) auto
    ultimately show ?thesis using False by simp
  qed
qed

lemma targetsUpdater_length:
  assumes "distinct (map target_id prev)" and "t \<in> set prev"
  shows "length (targetsUpdater (target_id t) d prev) = length prev"
proof -
  from assms(2) have "length prev > 0" by (cases prev) auto
  moreover have "length (filter (\<lambda>u. target_id u \<noteq> target_id t) prev) = length prev - 1"
    using assms by (rule filter_distinct_one)
  ultimately show ?thesis by (simp add: targetsUpdater_def Let_def)
qed

lemma targetsUpdater_absent:
  assumes "hid \<notin> target_id ` set prev"
  shows "targetsUpdater hid d prev = prev @ [generateTarget prev d]"
proof -
  from assms have "filter (\<lambda>t. target_id t \<noteq> hid) prev = prev"
    by (auto simp: filter_id_conv)
  then show ?thesis by (simp add: targetsUpdater_def Let_def)
qed

text \<open>
  \<open>startGame\<close> creates \<open>settings.targetCount\<close> targets. A shot whose listener belongs to
  the latest state keeps the number of live targets when their ids are pairwise distinct:
  the id that the loop finds is then the id of exactly one live target.
\<close>

lemma startGame_length:
  "length (targets (startGame s rnd)) = targetCount (settings (startGame s rnd))"
  "gameState (startGame s rnd) = PLAYING"
  by (simp_all add: startGame_def)

lemma handleShoot_current_length:
  assumes "distinctIds s"
  shows "length (targets (handleShoot s s ray now d)) = length (targets s)"
proof (cases "resolve ray (targets s) (targetSize (settings s))")
  case None
  then show ?thesis by (simp add: handleShoot_targets)
next
  case (Some p)
  obtain hid t dist where p: "p = (hid, t, dist)" by (cases p)
  from resolve_Some [OF Some [unfolded p]] have "t \<in> set (targets s)" "hid = target_id t"
    by simp_all
  with assms Some p show ?thesis
    by (simp add: handleShoot_targets targetsUpdater_length distinctIds_def)
qed

lemma firstShot_state:
  "gameState (app (run initSession firstShot)) = PLAYING"
  "targetCount (settings (app (run initSession firstShot))) = 3"
  "map target_id (targets (app (run initSession firstShot))) = [''a'', ''c'', ''e'']"
  "shooter (run initSession firstShot) = Some (startGame initApp scenarioStart)"
  "map target_id (targets (startGame initApp scenarioStart)) = [''a'', ''b'', ''c'']"
  by (simp_all add: model_defs session_defs sqrt_289 upt_rec)

lemma staleRun_resolve:
  "resolve (aimAt 0) (targets (startGame initApp scenarioStart))
     (targetSize (settings (startGame initApp scenarioStart))) =
   Some (''b'', generateTarget [] (mkDraw (1 / 2) ''b'' 0), 17)"
  by (simp add: model_defs session_defs sqrt_289 upt_rec)

text \<open>
  C1. The claim is that every \<open>PLAYING\<close> state has exactly \<open>settings.targetCount\<close> live
  targets, because every hit removes one target and adds one. The code does not keep that
  count. In the session \<open>staleRun\<close> two mousedowns reach the listener that \<open>Player\<close>
  attached after the start, before \<open>Player\<close> is rendered again. Both shots run their loop
  over the three targets a, b, c of that render and find b. The update of the first shot
  removes b and appends e; the update of the second shot receives the latest list a, c, e,
  removes nothing and appends k. The game is still being played, the ids are pairwise
  distinct, and there are four live targets for a target count of three.
\<close>

theorem live_target_count_stale_shot:
  "gameState (app (run initSession staleRun)) = PLAYING \<and>
   targetCount (settings (app (run initSession staleRun))) = 3 \<and>
   map target_id (targets (app (run initSession staleRun))) = [''a'', ''c'', ''e'', ''k''] \<and>
   distinctIds (app (run initSession staleRun)) \<and>
   length (targets (app (run initSession staleRun))) = 4 \<and>
   length (targets (app (run initSession staleRun))) \<noteq>
     targetCount (settings (app (run initSession staleRun))) \<and>
   shooter (run initSession firstShot) = Some (app (run initSession [ClickStart scenarioStart]))"
proof -
  have g: "gameState (app (run initSession staleRun)) = PLAYING"
    "targetCount (settings (app (run initSession staleRun))) = 3"
    by (simp_all add: model_defs session_defs sqrt_289 upt_rec)
  have i: "map target_id (targets (app (run initSession staleRun))) = [''a'', ''c'', ''e'', ''k'']"
    by (simp add: model_defs session_defs sqrt_289 upt_rec)
  have l: "length (targets (app (run initSession staleRun))) = 4"
    using arg_cong [OF i, of length] by simp
  have d: "distinctIds (app (run initSession staleRun))"
    by (simp add: distinctIds_def i)
  have c: "shooter (run initSession firstShot) =
      Some (app (run initSession [ClickStart scenarioStart]))"
    by (simp add: model_defs session_defs sqrt_289 upt_rec)
  from g i l d c show ?thesis by simp
qed

text \<open>
  The same update also breaks the count when two live targets carry the same id: one hit
  removes both and appends one.
\<close>

lemma collision_run_count:
  "gameState (app (run initSession collisionRun)) = PLAYING \<and>
   map target_id (targets (app (run initSession collisionRun))) = [''a'', ''k''] \<and>
   targetCount (settings (app (run initSession collisionRun))) = 3"
  by (simp add: model_defs session_defs sqrt_289 upt_rec)

text \<open>
  C2. The claim is that the update for an id that no element of the list carries leaves
  the list unchanged. The update of the code filters the list and then always appends a
  new target, so for such an id it returns the list with one more element. The second shot
  of \<open>staleRun\<close> applies exactly that: its loop, run over the targets of the render that
  the listener belongs to, finds the id b, the latest list has the ids a, c, e, and the
  list after the shot is that list followed by the new target k.
\<close>

theorem stale_id_update_grows:
  "resolve (aimAt 0) (targets (startGame initApp scenarioStart))
     (targetSize (settings (startGame initApp scenarioStart))) =
     Some (''b'', generateTarget [] (mkDraw (1 / 2) ''b'' 0), 17) \<and>
   shooter (run initSession firstShot) = Some (startGame initApp scenarioStart) \<and>
   map target_id (targets (app (run initSession firstShot))) = [''a'', ''c'', ''e''] \<and>
   ''b'' \<notin> set (map target_id (targets (app (run initSession firstShot)))) \<and>
   targetsUpdater ''b'' (mkDraw (1 / 2) ''k'' 230) (targets (app (run initSession firstShot))) =
     targets (app (run initSession firstShot)) @
       [generateTarget (targets (app (run initSession firstShot))) (mkDraw (1 / 2) ''k'' 230)] \<and>
   targetsUpdater ''b'' (mkDraw (1 / 2) ''k'' 230) (targets (app (run initSession firstShot))) \<noteq>
     targets (app (run initSession firstShot)) \<and>
   length (targetsUpdater ''b'' (mkDraw (1 / 2) ''k'' 230)
             (targets (app (run initSession firstShot)))) =
     length (targets (app (run initSession firstShot))) + 1 \<and>
   targets (app (run initSession staleRun)) =
     targetsUpdater ''b'' (mkDraw (1 / 2) ''k'' 230) (targets (app (run initSession firstShot)))"
proof -
  have n: "''b'' \<notin> set (map target_id (targets (app (run initSession firstShot))))"
    by (simp add: firstShot_state)
  then have n': "''b'' \<notin> target_id ` set (targets (app (run initSession firstShot)))"
    by simp
  note u = targetsUpdater_absent [OF n', of "mkDraw (1 / 2) ''k'' 230"]
  have a: "targets (app (run initSession staleRun)) =
     targetsUpdater ''b'' (mkDraw (1 / 2) ''k'' 230) (targets (app (run initSession firstShot)))"
    by (simp add: staleRun_def run_snoc firstShot_state(4) handleShoot_targets staleRun_resolve)
  from n u a staleRun_resolve firstShot_state(3,4) show ?thesis by simp
qed

section \<open>Hit resolution\<close>

text \<open>
  C3. The loop tests the ray against the sphere of radius \<open>targetSize * 1.1\<close> around
  each target's position. It ends with no hit exactly when the ray meets none of the
  spheres. Otherwise it ends with a target of the list whose sphere the ray meets, with that
  target's id, and with the straight-line distance from the ray origin to the target's
  centre, and no other target whose sphere the ray meets has a centre closer to the origin.
  The loop only reads the ray, the list and the size; a shot whose loop ends with no hit
  leaves the target list as it was, and no shot changes the game state, the settings or the
  time left.
\<close>

theorem hit_resolution:
  "(resolve ray ts sz = None \<longleftrightarrow>
      (\<forall>t\<in>set ts. \<not> intersectsSphere ray (position t) (sz * 1.1))) \<and>
   (\<forall>hid t d. resolve ray ts sz = Some (hid, t, d) \<longrightarrow>
      t \<in> set ts \<and> intersectsSphere ray (position t) (sz * 1.1) \<and>
      hid = target_id t \<and>
      d = distanceTo (position t) (origin ray) \<and>
      d = sqrt (distanceToSquared (position t) (origin ray)) \<and>
      (\<forall>u\<in>set ts. intersectsSphere ray (position u) (sz * 1.1) \<longrightarrow>
         distanceTo (position t) (origin ray) \<le> distanceTo (position u) (origin ray))) \<and>
   (resolve ray (targets c) (targetSize (settings c)) = None \<longrightarrow>
      targets (handleShoot c s ray now dr) = targets s) \<and>
   gameState (handleShoot c s ray now dr) = gameState s \<and>
   settings (handleShoot c s ray now dr) = settings s \<and>
   timeLeft (handleShoot c s ray now dr) = timeLeft s"
proof -
  have some: "\<forall>hid t d. resolve ray ts sz = Some (hid, t, d) \<longrightarrow>
      t \<in> set ts \<and> intersectsSphere ray (position t) (sz * 1.1) \<and>
      hid = target_id t \<and>
      d = distanceTo (position t) (origin ray) \<and>
      d = sqrt (distanceToSquared (position t) (origin ray)) \<and>
      (\<forall>u\<in>set ts. intersectsSphere ray (position u) (sz * 1.1) \<longrightarrow>
         distanceTo (position t) (origin ray) \<le> distanceTo (position u) (origin ray))"
  proof (intro allI impI)
    fix hid t d
    assume "resolve ray ts sz = Some (hid, t, d)"
    from resolve_Some [OF this]
    have f: "t \<in> set ts" "hid = target_id t" "d = distanceTo (position t) (origin ray)"
      "intersectsSphere ray (position t) (sz * 1.1)"
      "\<forall>u\<in>set ts. intersectsSphere ray (position u) (sz * 1.1) \<longrightarrow>
         d \<le> distanceTo (position u) (origin ray)"
      by auto
    have g: "d = sqrt (distanceToSquared (position t) (origin ray))"
      using f(3) by (simp add: distanceTo_def)
    from f g
    show "t \<in> set ts \<and> intersectsSphere ray (position t) (sz * 1.1) \<and>
      hid = target_id t \<and>
      d = distanceTo (position t) (origin ray) \<and>
      d = sqrt (distanceToSquared (position t) (origin ray)) \<and>
      (\<forall>u\<in>set ts. intersectsSphere ray (position u) (sz * 1.1) \<longrightarrow>
         distanceTo (position t) (origin ray) \<le> distanceTo (position u) (origin ray))"
      by blast
  qed
  have miss: "resolve ray (targets c) (targetSize (settings c)) = None \<longrightarrow>
      targets (handleShoot c s ray now dr) = targets s"
    by (simp add: handleShoot_targets)
  show ?thesis
    using some miss resolve_None_iff [of ray ts sz] handleShoot_frame(1-3) [of c s ray now dr]
    by blast
qed

lemma sqrt_lineUp: "17 < sqrt (28909 / 100)"
  by (rule real_less_rsqrt) simp

lemma resolve_lineUp:
  "resolve (aimAt 0) lineUp (1 / 2) = Some (''q'', generateTarget [] (mkDraw (1 / 2) ''q'' 0), 17)"
  by (simp add: lineUp_def model_defs session_defs sqrt_289 sqrt_lineUp)

theorem hit_resolution_witness:
  "resolve (aimAt 0) lineUp (1 / 2) = Some (''q'', generateTarget [] (mkDraw (1 / 2) ''q'' 0), 17) \<and>
   generateTarget [] (mkDraw (1 / 2) ''q'' 0) \<in> set lineUp \<and>
   intersectsSphere (aimAt 0) (position (generateTarget [] (mkDraw (1 / 2) ''q'' 0))) (1 / 2 * 1.1) \<and>
   intersectsSphere (aimAt 0) (position (generateTarget [] (mkDraw (53 / 100) ''p'' 0))) (1 / 2 * 1.1) \<and>
   17 \<le> distanceTo (position (generateTarget [] (mkDraw (53 / 100) ''p'' 0))) (origin (aimAt 0)) \<and>
   resolve aimUp lineUp (1 / 2) = None \<and>
   resolve aimUp (targets (startGame initApp scenarioStart))
     (targetSize (settings (startGame initApp scenarioStart))) = None \<and>
   targets (handleShoot (startGame initApp scenarioStart) (startGame initApp scenarioStart)
              aimUp 100 (mkDraw (1 / 2) ''m'' 100)) =
     targets (startGame initApp scenarioStart)"
proof -
  have p: "generateTarget [] (mkDraw (53 / 100) ''p'' 0) \<in> set lineUp"
    by (simp add: lineUp_def)
  have ip: "intersectsSphere (aimAt 0)
      (position (generateTarget [] (mkDraw (53 / 100) ''p'' 0))) (1 / 2 * 1.1)"
    by (simp add: model_defs session_defs)
  have d: "distanceTo (position (generateTarget [] (mkDraw (1 / 2) ''q'' 0))) (origin (aimAt 0)) = 17"
    by (simp add: model_defs session_defs sqrt_289)
  have up: "\<forall>t\<in>set lineUp. \<not> intersectsSphere aimUp (position t) (1 / 2 * 1.1)"
    by (simp add: lineUp_def model_defs session_defs)
  have n: "resolve aimUp (targets (startGame initApp scenarioStart))
     (targetSize (settings (startGame initApp scenarioStart))) = None"
    by (simp add: model_defs session_defs upt_rec)
  note T = hit_resolution [of "aimAt 0" lineUp "1 / 2" "startGame initApp scenarioStart"
      "startGame initApp scenarioStart" 100 "mkDraw (1 / 2) ''m'' 100"]
  from T resolve_lineUp
  have a: "generateTarget [] (mkDraw (1 / 2) ''q'' 0) \<in> set lineUp \<and>
      intersectsSphere (aimAt 0) (position (generateTarget [] (mkDraw (1 / 2) ''q'' 0))) (1 / 2 * 1.1) \<and>
      (\<forall>u\<in>set lineUp. intersectsSphere (aimAt 0) (position u) (1 / 2 * 1.1) \<longrightarrow>
         distanceTo (position (generateTarget [] (mkDraw (1 / 2) ''q'' 0))) (origin (aimAt 0))
           \<le> distanceTo (position u) (origin (aimAt 0)))"
    by blast
  from hit_resolution [of aimUp lineUp "1 / 2" "startGame initApp scenarioStart"
      "startGame initApp scenarioStart" 100 "mkDraw (1 / 2) ''m'' 100"] up n
  have b: "resolve aimUp lineUp (1 / 2) = None"
    and c: "targets (handleShoot (startGame initApp scenarioStart)
                (startGame initApp scenarioStart) aimUp 100 (mkDraw (1 / 2) ''m'' 100)) =
     targets (startGame initApp scenarioStart)"
    by blast+
  from a p ip d have "17 \<le> distanceTo (position (generateTarget [] (mkDraw (53 / 100) ''p'' 0))) (origin (aimAt 0))"
    by metis
  with a b c n ip resolve_lineUp show ?thesis by blast
qed

section \<open>Statistics of a shot\<close>

text \<open>
  What the two updaters of a shot do to the statistics. Every shot adds one to
  \<open>shotsFired\<close>. When the loop ended with a truthy \<open>hitId\<close>, \<open>shotsHit\<close> grows by one,
  the score by 100, and the record of the elapsed session time, of \<open>now\<close> minus the spawn
  time of the target found, and of the distance found is appended at the end of
  \<open>hitHistory\<close>. Otherwise \<open>shotsHit\<close>, the score and \<open>hitHistory\<close> stay as they were.
  Where no target of the loop has the empty string as its id, \<open>hitId\<close> is truthy exactly
  when the ray meets the sphere of some target.
\<close>

lemma shot_stats_effect:
  "(let r = resolve ray (targets c) (targetSize (settings c));
        st = stats s;
        st' = stats (handleShoot c s ray now d)
    in shotsFired st' = shotsFired st + 1 \<and>
       (isHit r \<longrightarrow>
          (\<exists>hid t dist. r = Some (hid, t, dist) \<and>
             shotsHit st' = shotsHit st + 1 \<and>
             score st' = score st + 100 \<and>
             hitHistory st' = hitHistory st @
               [\<lparr>time = duration (settings c) - timeLeft c,
                 reactionTime = now - spawnTime t,
                 distance = dist\<rparr>])) \<and>
       (\<not> isHit r \<longrightarrow>
          shotsHit st' = shotsHit st \<and> score st' = score st \<and>
          hitHistory st' = hitHistory st) \<and>
       ((\<forall>t\<in>set (targets c). target_id t \<noteq> []) \<longrightarrow>
          (isHit r \<longleftrightarrow>
             (\<exists>t\<in>set (targets c).
                intersectsSphere ray (position t) (targetSize (settings c) * 1.1)))))"
proof -
  define r where "r = resolve ray (targets c) (targetSize (settings c))"
  define st' where "st' = statsUpdater (settings c) (timeLeft c) now r (stats s)"
  have fired: "shotsFired st' = shotsFired (stats s) + 1"
    by (simp add: st'_def statsUpdater_def Let_def split: prod.splits)
  have hit: "isHit r \<longrightarrow>
      (\<exists>hid t dist. r = Some (hid, t, dist) \<and>
         shotsHit st' = shotsHit (stats s) + 1 \<and>
         score st' = score (stats s) + 100 \<and>
         hitHistory st' = hitHistory (stats s) @
           [\<lparr>time = duration (settings c) - timeLeft c,
             reactionTime = now - spawnTime t,
             distance = dist\<rparr>])"
    by (cases r) (auto simp: st'_def statsUpdater_def isHit_def Let_def)
  have miss: "\<not> isHit r \<longrightarrow>
      shotsHit st' = shotsHit (stats s) \<and> score st' = score (stats s) \<and>
      hitHistory st' = hitHistory (stats s)"
    by (cases r) (auto simp: st'_def statsUpdater_def isHit_def Let_def)
  have geo: "(\<forall>t\<in>set (targets c). target_id t \<noteq> []) \<longrightarrow>
      (isHit r \<longleftrightarrow>
         (\<exists>t\<in>set (targets c).
            intersectsSphere ray (position t) (targetSize (settings c) * 1.1)))"
  proof (cases r)
    case None
    then show ?thesis
      using resolve_None_iff [of ray "targets c" "targetSize (settings c)"]
      by (simp add: isHit_def r_def)
  next
    case (Some p)
    obtain hid t dist where p: "p = (hid, t, dist)" by (cases p)
    from Some p have "resolve ray (targets c) (targetSize (settings c)) = Some (hid, t, dist)"
      by (simp add: r_def)
    from resolve_Some [OF this] Some p show ?thesis
      by (auto simp: isHit_def)
  qed
  show ?thesis
    unfolding Let_def handleShoot_frame
    using fired hit miss geo unfolding st'_def r_def by blast
qed

lemma emptyIdRun_start:
  "app (run initSession [ClickStart emptyIdStart, Commit]) = startGame initApp emptyIdStart"
  "shooter (run initSession [ClickStart emptyIdStart, Commit]) =
     Some (startGame initApp emptyIdStart)"
  "map target_id (targets (startGame initApp emptyIdStart)) = [''a'', [], ''c'']"
  "targetSize (settings (startGame initApp emptyIdStart)) = 1 / 2"
  "stats (startGame initApp emptyIdStart) = zeroStats"
  by (simp_all add: model_defs session_defs upt_rec)

lemma emptyIdRun_resolve:
  "resolve (aimAt 0) (targets (startGame initApp emptyIdStart)) (1 / 2) =
     Some ([], generateTarget [] (mkDraw (1 / 2) [] 0), 17)"
  by (simp add: model_defs session_defs sqrt_289 upt_rec)

text \<open>
  C4. The claim is that a shot that hits adds one to \<open>shotsHit\<close>, 100 to the score and a
  record to \<open>hitHistory\<close>. The code decides whether the shot hit by the truthiness of the
  id that the loop found, and the empty string is an id that \<open>generateTarget\<close> can
  produce. In the session \<open>emptyIdRun\<close> the middle target has the empty id and the shot
  goes straight through its centre: the ray meets its sphere and the loop ends with that
  target at distance 17, yet \<open>isHit\<close> is false. The shot is counted in \<open>shotsFired\<close>,
  while \<open>shotsHit\<close>, the score and \<open>hitHistory\<close> stay as they were, and the target is
  not replaced.
\<close>

theorem empty_id_shot:
  "app (run initSession [ClickStart emptyIdStart, Commit]) = startGame initApp emptyIdStart \<and>
   shooter (run initSession [ClickStart emptyIdStart, Commit]) =
     Some (startGame initApp emptyIdStart) \<and>
   map target_id (targets (startGame initApp emptyIdStart)) = [''a'', [], ''c''] \<and>
   generateTarget [] (mkDraw (1 / 2) [] 0) \<in> set (targets (startGame initApp emptyIdStart)) \<and>
   intersectsSphere (aimAt 0) (position (generateTarget [] (mkDraw (1 / 2) [] 0)))
     (targetSize (settings (startGame initApp emptyIdStart)) * 1.1) \<and>
   resolve (aimAt 0) (targets (startGame initApp emptyIdStart))
     (targetSize (settings (startGame initApp emptyIdStart))) =
     Some ([], generateTarget [] (mkDraw (1 / 2) [] 0), 17) \<and>
   \<not> isHit (resolve (aimAt 0) (targets (startGame initApp emptyIdStart))
     (targetSize (settings (startGame initApp emptyIdStart)))) \<and>
   stats (app (run initSession emptyIdRun)) =
     \<lparr>score = 0, shotsFired = 1, shotsHit = 0, accuracy = 0, avgReactionTime = 0,
      hitHistory = []\<rparr> \<and>
   targets (app (run initSession emptyIdRun)) = targets (startGame initApp emptyIdStart)"
proof -
  have m: "generateTarget [] (mkDraw (1 / 2) [] 0) \<in> set (targets (startGame initApp emptyIdStart))"
    by (simp add: startGame_def initApp_def DEFAULT_SETTINGS_def emptyIdStart_def upt_rec)
  have i: "intersectsSphere (aimAt 0) (position (generateTarget [] (mkDraw (1 / 2) [] 0)))
     (targetSize (settings (startGame initApp emptyIdStart)) * 1.1)"
    by (simp add: model_defs session_defs)
  have r: "resolve (aimAt 0) (targets (startGame initApp emptyIdStart))
     (targetSize (settings (startGame initApp emptyIdStart))) =
     Some ([], generateTarget [] (mkDraw (1 / 2) [] 0), 17)"
    by (simp add: emptyIdRun_start(4) emptyIdRun_resolve)
  have h: "\<not> isHit (resolve (aimAt 0) (targets (startGame initApp emptyIdStart))
     (targetSize (settings (startGame initApp emptyIdStart))))"
    by (simp add: r isHit_def)
  have e: "run initSession emptyIdRun =
      step (run initSession [ClickStart emptyIdStart, Commit])
        (Shoot (aimAt 0) 250 (mkDraw (1 / 2) ''e'' 250))"
    using run_snoc [of initSession "[ClickStart emptyIdStart, Commit]"
        "Shoot (aimAt 0) 250 (mkDraw (1 / 2) ''e'' 250)"]
    by (simp add: emptyIdRun_def)
  have s: "stats (app (run initSession emptyIdRun)) =
     \<lparr>score = 0, shotsFired = 1, shotsHit = 0, accuracy = 0, avgReactionTime = 0,
      hitHistory = []\<rparr>"
    by (simp add: e emptyIdRun_start handleShoot_frame r [unfolded emptyIdRun_start(4)]
        statsUpdater_def isHit_def zeroStats_def Let_def)
  have t: "targets (app (run initSession emptyIdRun)) = targets (startGame initApp emptyIdStart)"
    by (simp add: e emptyIdRun_start handleShoot_targets r [unfolded emptyIdRun_start(4)])
  from emptyIdRun_start(1-3) m i r h s t show ?thesis by blast
qed

section \<open>Accuracy and average reaction time\<close>

lemma statsUpdater_accuracyOk: "accuracyOk (statsUpdater gs tleft now r prev)"
  by (simp add: accuracyOk_def statsUpdater_def Let_def split: prod.splits)

lemma statsUpdater_fired: "shotsFired (statsUpdater gs tleft now r prev) = shotsFired prev + 1"
  by (simp add: statsUpdater_def Let_def split: prod.splits)

lemma step_stats:
  "stats (app (step s e)) = stats (app s) \<or> stats (app (step s e)) = zeroStats \<or>
   (\<exists>gs tleft now r. stats (app (step s e)) = statsUpdater gs tleft now r (stats (app s)))"
proof (cases e)
  case (Shoot ray now d)
  then show ?thesis by (cases "shooter s") (auto simp: handleShoot_frame)
qed (auto simp: handleKeyDown_frame timerTick_frame inMenu_frame startGame_def resumeGame_def
      quitToMenu_def)

lemma run_stats_inv:
  assumes zero: "P zeroStats"
    and upd: "\<And>gs tleft now r prev. P prev \<Longrightarrow> P (statsUpdater gs tleft now r prev)"
  shows "P (stats (app (run initSession evs)))"
proof (induction evs rule: rev_induct)
  case Nil
  show ?case by (simp add: run_Nil initSession_def initApp_def zero)
next
  case (snoc e es)
  from step_stats [of "run initSession es" e] snoc zero upd
  show ?case by (auto simp: run_snoc)
qed

lemma foldl_reaction:
  "foldl (\<lambda>acc h. acc + reactionTime h) a hs = a + sum_list (map reactionTime hs)"
  by (induction hs arbitrary: a) simp_all

lemma statsUpdater_average_hit:
  assumes "isHit r"
  shows "avgReactionTime (statsUpdater gs tleft now r prev) =
     real_of_int (sum_list (map reactionTime (hitHistory (statsUpdater gs tleft now r prev)))) /
     real (length (hitHistory (statsUpdater gs tleft now r prev)))"
  using assms
  by (cases r) (auto simp: statsUpdater_def isHit_def Let_def foldl_reaction)

lemma statsUpdater_averageOk:
  assumes "averageOk prev"
  shows "averageOk (statsUpdater gs tleft now r prev)"
proof (cases "isHit r")
  case True
  then obtain hid t dist where r: "r = Some (hid, t, dist)" and hid: "hid \<noteq> []"
    by (cases r) (auto simp: isHit_def)
  have "hitHistory (statsUpdater gs tleft now r prev) \<noteq> []"
    by (simp add: r hid statsUpdater_def Let_def)
  moreover have "length (hitHistory (statsUpdater gs tleft now r prev)) =
      shotsHit (statsUpdater gs tleft now r prev)"
    using assms by (simp add: r hid statsUpdater_def isHit_def Let_def averageOk_def)
  ultimately show ?thesis
    using statsUpdater_average_hit [OF True, of gs tleft now prev]
    by (simp add: averageOk_def)
next
  case False
  then have "hitHistory (statsUpdater gs tleft now r prev) = hitHistory prev"
    "avgReactionTime (statsUpdater gs tleft now r prev) = avgReactionTime prev"
    "shotsHit (statsUpdater gs tleft now r prev) = shotsHit prev"
    by (cases r; auto simp: statsUpdater_def isHit_def Let_def)+
  with assms show ?thesis by (simp add: averageOk_def)
qed

lemma scenario_stats:
  "stats (app (run initSession scenario)) =
     \<lparr>score = 700, shotsFired = 10, shotsHit = 7, accuracy = 70, avgReactionTime = 1930 / 7,
      hitHistory =
        [\<lparr>time = 0, reactionTime = 200, distance = 17\<rparr>,
         \<lparr>time = 0, reactionTime = 250, distance = 17\<rparr>,
         \<lparr>time = 0, reactionTime = 300, distance = 17\<rparr>,
         \<lparr>time = 0, reactionTime = 150, distance = 17\<rparr>,
         \<lparr>time = 0, reactionTime = 400, distance = 17\<rparr>,
         \<lparr>time = 0, reactionTime = 350, distance = 17\<rparr>,
         \<lparr>time = 0, reactionTime = 280, distance = 17\<rparr>]\<rparr>"
  by (simp add: model_defs session_defs sqrt_289 upt_rec)

text \<open>
  C5. After every shot \<open>shotsFired\<close> is positive and the stored accuracy is
  \<open>shotsHit / shotsFired * 100\<close>. The statistics that \<open>startGame\<close> installs and those of
  the initial state have \<open>shotsFired = 0\<close> and accuracy 0. In every state that a run from
  the initial state reaches, the accuracy is \<open>shotsHit / shotsFired * 100\<close> when
  \<open>shotsFired\<close> is positive and 0 when it is 0.
\<close>

theorem accuracy_formula:
  "0 < shotsFired (stats (handleShoot c s ray now d)) \<and>
   accuracy (stats (handleShoot c s ray now d)) =
     real (shotsHit (stats (handleShoot c s ray now d))) /
     real (shotsFired (stats (handleShoot c s ray now d))) * 100 \<and>
   shotsFired (stats (startGame s rnd)) = 0 \<and> accuracy (stats (startGame s rnd)) = 0 \<and>
   shotsFired (stats (app initSession)) = 0 \<and> accuracy (stats (app initSession)) = 0 \<and>
   accuracy (stats (app (run initSession evs))) =
     (if 0 < shotsFired (stats (app (run initSession evs)))
      then real (shotsHit (stats (app (run initSession evs)))) /
           real (shotsFired (stats (app (run initSession evs)))) * 100
      else 0)"
proof -
  have pos: "0 < shotsFired (stats (handleShoot c s ray now d))"
    by (simp add: handleShoot_frame statsUpdater_fired)
  have "accuracyOk (stats (handleShoot c s ray now d))"
    by (simp add: handleShoot_frame statsUpdater_accuracyOk)
  with pos have shot: "accuracy (stats (handleShoot c s ray now d)) =
     real (shotsHit (stats (handleShoot c s ray now d))) /
     real (shotsFired (stats (handleShoot c s ray now d))) * 100"
    by (simp add: accuracyOk_def)
  have fresh: "shotsFired (stats (startGame s rnd)) = 0" "accuracy (stats (startGame s rnd)) = 0"
    "shotsFired (stats (app initSession)) = 0" "accuracy (stats (app initSession)) = 0"
    by (simp_all add: startGame_def initSession_def initApp_def zeroStats_def)
  have "accuracyOk (stats (app (run initSession evs)))"
    by (rule run_stats_inv) (simp_all add: statsUpdater_accuracyOk, simp add: accuracyOk_def zeroStats_def)
  then have inv: "accuracy (stats (app (run initSession evs))) =
     (if 0 < shotsFired (stats (app (run initSession evs)))
      then real (shotsHit (stats (app (run initSession evs)))) /
           real (shotsFired (stats (app (run initSession evs)))) * 100
      else 0)"
    by (simp add: accuracyOk_def)
  from pos shot fresh inv show ?thesis by blast
qed

theorem accuracy_formula_witness:
  "shotsFired (stats (app (run initSession scenario))) = 10 \<and>
   shotsHit (stats (app (run initSession scenario))) = 7 \<and>
   accuracy (stats (app (run initSession scenario))) = 7 / 10 * 100 \<and>
   accuracy (stats (app (run initSession [ClickStart scenarioStart]))) = 0"
proof -
  have z: "shotsFired (stats (app (run initSession [ClickStart scenarioStart]))) = 0"
    by (simp add: model_defs)
  from accuracy_formula [of initApp initApp aimUp 0 "mkDraw 0 [] 0" scenarioStart scenario]
       accuracy_formula [of initApp initApp aimUp 0 "mkDraw 0 [] 0" scenarioStart "[ClickStart scenarioStart]"]
       z
  show ?thesis by (simp add: scenario_stats)
qed

text \<open>
  C6. A hit stores as average reaction time the sum of the reaction times of the whole new
  history divided by its length. In every state that a run from the initial state reaches,
  the history has one record for each counted hit, and when it is not empty the stored
  average is the mean of its reaction times. In the session of ten shots with seven hits
  of reaction times 200, 250, 300, 150, 400, 350 and 280, the statistics are 10 shots
  fired, 7 shots hit, accuracy 70 and average 1930 / 7, which is 275.71 to two decimals.
\<close>

theorem average_reaction_time:
  "(isHit r \<longrightarrow>
      avgReactionTime (statsUpdater gs tleft now r prev) =
        real_of_int (sum_list (map reactionTime (hitHistory (statsUpdater gs tleft now r prev)))) /
        real (length (hitHistory (statsUpdater gs tleft now r prev)))) \<and>
   length (hitHistory (stats (app (run initSession evs)))) = shotsHit (stats (app (run initSession evs))) \<and>
   (hitHistory (stats (app (run initSession evs))) \<noteq> [] \<longrightarrow>
      avgReactionTime (stats (app (run initSession evs))) =
        real_of_int (sum_list (map reactionTime (hitHistory (stats (app (run initSession evs)))))) /
        real (length (hitHistory (stats (app (run initSession evs)))))) \<and>
   shotsFired (stats (app (run initSession scenario))) = 10 \<and>
   shotsHit (stats (app (run initSession scenario))) = 7 \<and>
   accuracy (stats (app (run initSession scenario))) = 70 \<and>
   map reactionTime (hitHistory (stats (app (run initSession scenario)))) =
     [200, 250, 300, 150, 400, 350, 280] \<and>
   avgReactionTime (stats (app (run initSession scenario))) = 1930 / 7 \<and>
   \<bar>avgReactionTime (stats (app (run initSession scenario))) - 275.71\<bar> < 0.005"
proof -
  have "averageOk (stats (app (run initSession evs)))"
    by (rule run_stats_inv) (simp_all add: statsUpdater_averageOk, simp add: averageOk_def zeroStats_def)
  then have inv: "length (hitHistory (stats (app (run initSession evs)))) = shotsHit (stats (app (run initSession evs)))"
    "hitHistory (stats (app (run initSession evs))) \<noteq> [] \<longrightarrow>
      avgReactionTime (stats (app (run initSession evs))) =
        real_of_int (sum_list (map reactionTime (hitHistory (stats (app (run initSession evs)))))) /
        real (length (hitHistory (stats (app (run initSession evs)))))"
    by (simp_all add: averageOk_def)
  have sc: "shotsFired (stats (app (run initSession scenario))) = 10"
    "shotsHit (stats (app (run initSession scenario))) = 7"
    "accuracy (stats (app (run initSession scenario))) = 70"
    "map reactionTime (hitHistory (stats (app (run initSession scenario)))) =
     [200, 250, 300, 150, 400, 350, 280]"
    "avgReactionTime (stats (app (run initSession scenario))) = 1930 / 7"
    "\<bar>avgReactionTime (stats (app (run initSession scenario))) - 275.71\<bar> < 0.005"
    by (simp_all add: scenario_stats)
  from statsUpdater_average_hit [of r gs tleft now prev] inv sc show ?thesis by blast
qed

theorem average_reaction_time_witness:
  "hitHistory (stats (app (run initSession scenario))) \<noteq> [] \<and>
   avgReactionTime (stats (app (run initSession scenario))) =
     real_of_int (200 + 250 + 300 + 150 + 400 + 350 + 280) / real 7 \<and>
   isHit (Some (''b'', generateTarget [] (mkDraw (1 / 2) ''b'' 0), 17)) \<and>
   avgReactionTime (statsUpdater DEFAULT_SETTINGS 60 250
      (Some (''b'', generateTarget [] (mkDraw (1 / 2) ''b'' 0), 17)) zeroStats) = 250"
proof -
  have h: "hitHistory (stats (app (run initSession scenario))) \<noteq> []"
    by (simp add: scenario_stats)
  have m: "map reactionTime (hitHistory (stats (app (run initSession scenario)))) =
     [200, 250, 300, 150, 400, 350, 280]"
    "length (hitHistory (stats (app (run initSession scenario)))) = 7"
    by (simp_all add: scenario_stats)
  have i: "isHit (Some (''b'', generateTarget [] (mkDraw (1 / 2) ''b'' 0), 17))"
    by (simp add: isHit_def)
  have k: "hitHistory (statsUpdater DEFAULT_SETTINGS 60 250
      (Some (''b'', generateTarget [] (mkDraw (1 / 2) ''b'' 0), 17)) zeroStats) =
      [\<lparr>time = 0, reactionTime = 250, distance = 17\<rparr>]"
    by (simp add: statsUpdater_def zeroStats_def DEFAULT_SETTINGS_def generateTarget_def
        mkDraw_def Let_def)
  note T = average_reaction_time [of "Some (''b'', generateTarget [] (mkDraw (1 / 2) ''b'' 0), 17)"
      DEFAULT_SETTINGS 60 250 zeroStats scenario]
  from T h
  have a: "avgReactionTime (stats (app (run initSession scenario))) =
        real_of_int (sum_list (map reactionTime (hitHistory (stats (app (run initSession scenario)))))) /
        real (length (hitHistory (stats (app (run initSession scenario)))))"
    by blast
  from T i
  have b: "avgReactionTime (statsUpdater DEFAULT_SETTINGS 60 250
      (Some (''b'', generateTarget [] (mkDraw (1 / 2) ''b'' 0), 17)) zeroStats) =
      real_of_int (sum_list (map reactionTime (hitHistory (statsUpdater DEFAULT_SETTINGS 60 250
      (Some (''b'', generateTarget [] (mkDraw (1 / 2) ''b'' 0), 17)) zeroStats)))) /
      real (length (hitHistory (statsUpdater DEFAULT_SETTINGS 60 250
      (Some (''b'', generateTarget [] (mkDraw (1 / 2) ''b'' 0), 17)) zeroStats)))"
    by blast
  have b': "avgReactionTime (statsUpdater DEFAULT_SETTINGS 60 250
      (Some (''b'', generateTarget [] (mkDraw (1 / 2) ''b'' 0), 17)) zeroStats) = 250"
    unfolding b k by simp
  from a have a': "avgReactionTime (stats (app (run initSession scenario))) =
     real_of_int (200 + 250 + 300 + 150 + 400 + 350 + 280) / real 7"
    by (simp only: m) simp
  from h a' i b' show ?thesis by blast
qed

section \<open>Grade\<close>

text \<open>
  C7. The grade of the session report is S exactly when the accuracy is above 90 and the
  average reaction time below 350; A exactly when that fails and the accuracy is above 85
  and the average below 450; B exactly when both fail and the accuracy is above 75 and the
  average below 550; C exactly when all three fail and the accuracy is above 60; D exactly
  when the accuracy is at most 60. Accuracy 92 with average 300 grades S, and accuracy 92
  with average 400 grades A.
\<close>

theorem grade_rules:
  "scoreboardGrade st = grade (accuracy st) (avgReactionTime st) \<and>
   (grade a t = GradeS \<longleftrightarrow> a > 90 \<and> t < 350) \<and>
   (grade a t = GradeA \<longleftrightarrow> \<not> (a > 90 \<and> t < 350) \<and> a > 85 \<and> t < 450) \<and>
   (grade a t = GradeB \<longleftrightarrow>
      \<not> (a > 90 \<and> t < 350) \<and> \<not> (a > 85 \<and> t < 450) \<and> a > 75 \<and> t < 550) \<and>
   (grade a t = GradeC \<longleftrightarrow>
      \<not> (a > 90 \<and> t < 350) \<and> \<not> (a > 85 \<and> t < 450) \<and> \<not> (a > 75 \<and> t < 550) \<and> a > 60) \<and>
   (grade a t = GradeD \<longleftrightarrow> a \<le> 60) \<and>
   grade 92 300 = GradeS \<and> grade 92 400 = GradeA"
  by (auto simp: grade_def scoreboardGrade_def)

theorem grade_rules_witness:
  "scoreboardGrade (zeroStats\<lparr>accuracy := 92, avgReactionTime := 300\<rparr>) = GradeS \<and>
   scoreboardGrade (zeroStats\<lparr>accuracy := 92, avgReactionTime := 400\<rparr>) = GradeA \<and>
   scoreboardGrade (stats (app (run initSession scenario))) = GradeC"
proof -
  have a: "accuracy (stats (app (run initSession scenario))) = 70"
    "avgReactionTime (stats (app (run initSession scenario))) = 1930 / 7"
    by (simp_all add: scenario_stats)
  from grade_rules [of "zeroStats\<lparr>accuracy := 92, avgReactionTime := 300\<rparr>" 92 300]
       grade_rules [of "zeroStats\<lparr>accuracy := 92, avgReactionTime := 400\<rparr>" 92 400]
       grade_rules [of "stats (app (run initSession scenario))" 70 "1930 / 7"]
       a
  show ?thesis by simp
qed


section \<open>The countdown\<close>

lemma run_ticks: "run s (replicate k Tick) = s\<lparr>app := (timerTick ^^ k) (app s)\<rparr>"
proof (induction k arbitrary: s)
  case 0
  show ?case by (simp add: run_Nil)
next
  case (Suc k)
  have "run s (replicate (Suc k) Tick) = run (s\<lparr>app := timerTick (app s)\<rparr>) (replicate k Tick)"
    by (simp add: run_Cons)
  also have "\<dots> = s\<lparr>app := (timerTick ^^ k) (timerTick (app s))\<rparr>"
    by (simp add: Suc.IH)
  also have "\<dots> = s\<lparr>app := (timerTick ^^ Suc k) (app s)\<rparr>"
    by (simp add: funpow_swap1)
  finally show ?case .
qed

lemma ticks_idle: "gameState a \<noteq> PLAYING \<Longrightarrow> (timerTick ^^ k) a = a"
  by (induction k) (simp_all add: timerTick_def)

lemma ticks_playing:
  "gameState a = PLAYING \<Longrightarrow> int k < timeLeft a \<Longrightarrow>
     (timerTick ^^ k) a = a\<lparr>timeLeft := timeLeft a - int k\<rparr>"
proof (induction k)
  case 0
  show ?case by simp
next
  case (Suc k)
  then have ih: "(timerTick ^^ k) a = a\<lparr>timeLeft := timeLeft a - int k\<rparr>" by simp
  have "(timerTick ^^ Suc k) a = timerTick (a\<lparr>timeLeft := timeLeft a - int k\<rparr>)"
    by (simp only: funpow.simps o_apply ih)
  also have "\<dots> = a\<lparr>timeLeft := timeLeft a - int (Suc k)\<rparr>"
    using Suc.prems by (simp add: timerTick_def algebra_simps)
  finally show ?case .
qed

lemma ticks_expire:
  assumes "gameState a = PLAYING" and "1 \<le> timeLeft a" and "timeLeft a \<le> int k"
  shows "(timerTick ^^ k) a = a\<lparr>gameState := FINISHED, timeLeft := 0\<rparr>"
proof -
  define m where "m = nat (timeLeft a - 1)"
  have m: "int m < timeLeft a" "timeLeft a - int m = 1" "Suc m \<le> k"
    using assms by (simp_all add: m_def)
  have "(timerTick ^^ m) a = a\<lparr>timeLeft := 1\<rparr>"
    using ticks_playing [OF assms(1) m(1)] m(2) by simp
  then have fin: "(timerTick ^^ Suc m) a = a\<lparr>gameState := FINISHED, timeLeft := 0\<rparr>"
    using assms(1) by (simp add: timerTick_def)
  from m(3) obtain j where k: "k = j + Suc m" by (metis le_Suc_ex add.commute)
  have "(timerTick ^^ k) a = (timerTick ^^ j) ((timerTick ^^ Suc m) a)"
    unfolding k by (simp only: funpow_add o_apply)
  also have "\<dots> = a\<lparr>gameState := FINISHED, timeLeft := 0\<rparr>"
    unfolding fin by (rule ticks_idle) simp
  finally show ?thesis .
qed

lemma step_timeOk: "timeOk (app s) \<Longrightarrow> timeOk (app (step s e))"
proof (cases e)
  case (Shoot ray now d)
  assume "timeOk (app s)"
  with Shoot show ?thesis
    by (cases "shooter s") (simp_all add: timeOk_def handleShoot_frame)
qed (auto simp: timeOk_def handleKeyDown_def startGame_def resumeGame_def quitToMenu_def
      timerTick_def inMenu_def Let_def)

lemma run_timeOk: "timeOk (app (run initSession evs))"
proof (induction evs rule: rev_induct)
  case Nil
  show ?case
    by (simp add: run_Nil timeOk_def initSession_def initApp_def DEFAULT_SETTINGS_def)
next
  case (snoc e es)
  then show ?case by (simp add: run_snoc step_timeOk)
qed

lemma eighteenSeconds_state:
  "gameState (app (run initSession eighteenSeconds)) = PLAYING"
  "timeLeft (app (run initSession eighteenSeconds)) = 42"
proof -
  have st: "gameState (startGame initApp scenarioStart) = PLAYING"
    "timeLeft (startGame initApp scenarioStart) = 60"
    by (simp_all add: startGame_def initApp_def DEFAULT_SETTINGS_def)
  have "app (run initSession eighteenSeconds) =
      (timerTick ^^ 18) (startGame initApp scenarioStart)"
    by (simp add: eighteenSeconds_def run_Cons run_ticks initSession_def initApp_def)
  also have "\<dots> = (startGame initApp scenarioStart)\<lparr>timeLeft := 60 - int 18\<rparr>"
    using ticks_playing [OF st(1), of 18] by (simp add: st)
  finally have "app (run initSession eighteenSeconds) =
      (startGame initApp scenarioStart)\<lparr>timeLeft := 42\<rparr>"
    by simp
  then show "gameState (app (run initSession eighteenSeconds)) = PLAYING"
    "timeLeft (app (run initSession eighteenSeconds)) = 42"
    by (simp_all add: st)
qed

text \<open>
  C8. A timer tick in a \<open>PLAYING\<close> state with at least one second left takes exactly one
  second off; the state stays \<open>PLAYING\<close> unless that second was the last, in which case
  it becomes \<open>FINISHED\<close> with no time left. After a tick in \<open>PLAYING\<close> the time left is
  never negative. In every other state the tick changes nothing, so a finished session is
  not finished again. Every state that a run from the initial state reaches has a
  non-negative time left, and at least one second left in \<open>PLAYING\<close>. After \<open>startGame\<close> with
  a duration of \<open>d \<ge> 1\<close> seconds, \<open>k < d\<close> ticks leave the state \<open>PLAYING\<close> with
  \<open>d - k\<close> seconds, and \<open>d\<close> or more ticks leave it \<open>FINISHED\<close> with 0 seconds; for a
  duration of 5, five ticks end in \<open>FINISHED\<close> with 0 seconds.
\<close>

theorem countdown_clock:
  "(gameState (app s) = PLAYING \<and> 1 \<le> timeLeft (app s) \<longrightarrow>
      timeLeft (app (step s Tick)) = timeLeft (app s) - 1 \<and>
      gameState (app (step s Tick)) = (if timeLeft (app s) = 1 then FINISHED else PLAYING)) \<and>
   (gameState (app s) = PLAYING \<longrightarrow> 0 \<le> timeLeft (app (step s Tick))) \<and>
   (gameState (app s) \<noteq> PLAYING \<longrightarrow> step s Tick = s) \<and>
   0 \<le> timeLeft (app (run initSession evs)) \<and>
   (gameState (app (run initSession evs)) = PLAYING \<longrightarrow>
      1 \<le> timeLeft (app (run initSession evs))) \<and>
   (1 \<le> duration (settings (app s)) \<longrightarrow>
      (\<forall>k. int k < duration (settings (app s)) \<longrightarrow>
         gameState (app (run (s\<lparr>app := startGame (app s) rnd\<rparr>) (replicate k Tick))) = PLAYING \<and>
         timeLeft (app (run (s\<lparr>app := startGame (app s) rnd\<rparr>) (replicate k Tick))) =
           duration (settings (app s)) - int k) \<and>
      (\<forall>k. duration (settings (app s)) \<le> int k \<longrightarrow>
         gameState (app (run (s\<lparr>app := startGame (app s) rnd\<rparr>) (replicate k Tick))) = FINISHED \<and>
         timeLeft (app (run (s\<lparr>app := startGame (app s) rnd\<rparr>) (replicate k Tick))) = 0)) \<and>
   (duration (settings (app s)) = 5 \<longrightarrow>
      gameState (app (run (s\<lparr>app := startGame (app s) rnd\<rparr>) (replicate 5 Tick))) = FINISHED \<and>
      timeLeft (app (run (s\<lparr>app := startGame (app s) rnd\<rparr>) (replicate 5 Tick))) = 0)"
proof -
  have one: "gameState (app s) = PLAYING \<and> 1 \<le> timeLeft (app s) \<longrightarrow>
      timeLeft (app (step s Tick)) = timeLeft (app s) - 1 \<and>
      gameState (app (step s Tick)) = (if timeLeft (app s) = 1 then FINISHED else PLAYING)"
    by (auto simp: timerTick_def)
  have nonneg: "gameState (app s) = PLAYING \<longrightarrow> 0 \<le> timeLeft (app (step s Tick))"
    by (simp add: timerTick_def)
  have idle: "gameState (app s) \<noteq> PLAYING \<longrightarrow> step s Tick = s"
    by (simp add: timerTick_def)
  have reach: "0 \<le> timeLeft (app (run initSession evs))"
    "gameState (app (run initSession evs)) = PLAYING \<longrightarrow>
       1 \<le> timeLeft (app (run initSession evs))"
    using run_timeOk [of evs] by (simp_all add: timeOk_def)
  define a where "a = startGame (app s) rnd"
  have st: "gameState a = PLAYING" "timeLeft a = duration (settings (app s))"
    by (simp_all add: a_def startGame_def)
  have ticks: "app (run (s\<lparr>app := a\<rparr>) (replicate k Tick)) = (timerTick ^^ k) a" for k
    by (simp add: run_ticks)
  have before: "\<forall>k. int k < duration (settings (app s)) \<longrightarrow>
         gameState (app (run (s\<lparr>app := a\<rparr>) (replicate k Tick))) = PLAYING \<and>
         timeLeft (app (run (s\<lparr>app := a\<rparr>) (replicate k Tick))) =
           duration (settings (app s)) - int k"
  proof (intro allI impI)
    fix k assume "int k < duration (settings (app s))"
    then have "int k < timeLeft a" by (simp add: st)
    from ticks_playing [OF st(1) this]
    show "gameState (app (run (s\<lparr>app := a\<rparr>) (replicate k Tick))) = PLAYING \<and>
         timeLeft (app (run (s\<lparr>app := a\<rparr>) (replicate k Tick))) =
           duration (settings (app s)) - int k"
      by (simp add: ticks st)
  qed
  have after: "1 \<le> duration (settings (app s)) \<longrightarrow>
      (\<forall>k. duration (settings (app s)) \<le> int k \<longrightarrow>
         gameState (app (run (s\<lparr>app := a\<rparr>) (replicate k Tick))) = FINISHED \<and>
         timeLeft (app (run (s\<lparr>app := a\<rparr>) (replicate k Tick))) = 0)"
  proof (intro allI impI)
    fix k assume "1 \<le> duration (settings (app s))" and "duration (settings (app s)) \<le> int k"
    then have "1 \<le> timeLeft a" "timeLeft a \<le> int k"
      by (simp_all add: st)
    from ticks_expire [OF st(1) this]
    show "gameState (app (run (s\<lparr>app := a\<rparr>) (replicate k Tick))) = FINISHED \<and>
         timeLeft (app (run (s\<lparr>app := a\<rparr>) (replicate k Tick))) = 0"
      by (simp add: ticks)
  qed
  have five: "duration (settings (app s)) = 5 \<longrightarrow>
      gameState (app (run (s\<lparr>app := a\<rparr>) (replicate 5 Tick))) = FINISHED \<and>
      timeLeft (app (run (s\<lparr>app := a\<rparr>) (replicate 5 Tick))) = 0"
  proof
    assume "duration (settings (app s)) = 5"
    then have "1 \<le> timeLeft a" "timeLeft a \<le> int 5"
      by (simp_all add: st)
    from ticks_expire [OF st(1) this]
    show "gameState (app (run (s\<lparr>app := a\<rparr>) (replicate 5 Tick))) = FINISHED \<and>
      timeLeft (app (run (s\<lparr>app := a\<rparr>) (replicate 5 Tick))) = 0"
      by (simp add: ticks)
  qed
  from one nonneg idle reach before after five show ?thesis
    unfolding a_def by blast
qed

theorem countdown_clock_witness:
  "duration (settings (app fiveSeconds)) = 5 \<and>
   gameState (app (run (fiveSeconds\<lparr>app := startGame (app fiveSeconds) scenarioStart\<rparr>)
     (replicate 4 Tick))) = PLAYING \<and>
   timeLeft (app (run (fiveSeconds\<lparr>app := startGame (app fiveSeconds) scenarioStart\<rparr>)
     (replicate 4 Tick))) = 1 \<and>
   gameState (app (run (fiveSeconds\<lparr>app := startGame (app fiveSeconds) scenarioStart\<rparr>)
     (replicate 5 Tick))) = FINISHED \<and>
   timeLeft (app (run (fiveSeconds\<lparr>app := startGame (app fiveSeconds) scenarioStart\<rparr>)
     (replicate 5 Tick))) = 0 \<and>
   timeLeft (app (run (fiveSeconds\<lparr>app := startGame (app fiveSeconds) scenarioStart\<rparr>)
     (replicate 9 Tick))) = 0 \<and>
   gameState (app (run initSession eighteenSeconds)) = PLAYING \<and>
   1 \<le> timeLeft (app (run initSession eighteenSeconds)) \<and>
   timeLeft (app (step (run initSession eighteenSeconds) Tick)) = 41 \<and>
   gameState (app (step (run initSession eighteenSeconds) Tick)) = PLAYING \<and>
   gameState (app (step (run initSession eighteenSeconds) (KeyDown ''Escape''))) \<noteq> PLAYING \<and>
   step (step (run initSession eighteenSeconds) (KeyDown ''Escape'')) Tick =
     step (run initSession eighteenSeconds) (KeyDown ''Escape'')"
proof -
  have h: "duration (settings (app fiveSeconds)) = 5"
    by (simp add: fiveSeconds_def)
  note T = countdown_clock [of fiveSeconds "[]" scenarioStart]
  from T h
  have a: "\<forall>k. int k < 5 \<longrightarrow>
         gameState (app (run (fiveSeconds\<lparr>app := startGame (app fiveSeconds) scenarioStart\<rparr>)
           (replicate k Tick))) = PLAYING \<and>
         timeLeft (app (run (fiveSeconds\<lparr>app := startGame (app fiveSeconds) scenarioStart\<rparr>)
           (replicate k Tick))) = 5 - int k"
    and b: "\<forall>k. 5 \<le> int k \<longrightarrow>
         gameState (app (run (fiveSeconds\<lparr>app := startGame (app fiveSeconds) scenarioStart\<rparr>)
           (replicate k Tick))) = FINISHED \<and>
         timeLeft (app (run (fiveSeconds\<lparr>app := startGame (app fiveSeconds) scenarioStart\<rparr>)
           (replicate k Tick))) = 0"
    by simp_all
  have q: "gameState (app (step (run initSession eighteenSeconds) (KeyDown ''Escape''))) \<noteq> PLAYING"
    by (simp add: handleKeyDown_def eighteenSeconds_state)
  from countdown_clock [of "run initSession eighteenSeconds" eighteenSeconds scenarioStart]
       eighteenSeconds_state
  have c: "timeLeft (app (step (run initSession eighteenSeconds) Tick)) = 41"
    "gameState (app (step (run initSession eighteenSeconds) Tick)) = PLAYING"
    "1 \<le> timeLeft (app (run initSession eighteenSeconds))"
    by simp_all
  from countdown_clock [of "step (run initSession eighteenSeconds) (KeyDown ''Escape'')" "[]"
      scenarioStart] q
  have d: "step (step (run initSession eighteenSeconds) (KeyDown ''Escape'')) Tick =
     step (run initSession eighteenSeconds) (KeyDown ''Escape'')"
    by blast
  from a [rule_format, of 4] b [rule_format, of 5] b [rule_format, of 9] h c d q
       eighteenSeconds_state(1)
  show ?thesis by simp
qed

section \<open>Pause\<close>



section \<open>Spawn positions\<close>

lemma generateTarget_box: "unitDraw d \<Longrightarrow> inSpawnBox (generateTarget l d)"
  by (simp add: unitDraw_def inSpawnBox_def generateTarget_def SPAWN_AREA_WIDTH_def
      SPAWN_DISTANCE_def Let_def)

lemma step_box:
  assumes "\<forall>t\<in>set (targets (app s)). inSpawnBox t" and "unitEvent s e"
  shows "\<forall>t\<in>set (targets (app (step s e))). inSpawnBox t"
proof (cases e)
  case (Shoot ray now d)
  with assms have "unitDraw d" by simp
  then have "inSpawnBox (generateTarget l d)" for l by (rule generateTarget_box)
  with assms(1) Shoot show ?thesis
    by (cases "shooter s")
      (auto simp: handleShoot_targets targetsUpdater_def Let_def split: option.splits if_splits)
next
  case (ClickStart rnd)
  with assms show ?thesis
    by (auto simp: startGame_def generateTarget_box)
qed (use assms in \<open>auto simp: handleKeyDown_frame timerTick_frame inMenu_frame resumeGame_def
      quitToMenu_def\<close>)

lemma run_box:
  "\<forall>t\<in>set (targets (app s)). inSpawnBox t \<Longrightarrow> unitRun s evs \<Longrightarrow>
     \<forall>t\<in>set (targets (app (run s evs))). inSpawnBox t"
proof (induction evs arbitrary: s)
  case Nil
  then show ?case by (simp add: run_Nil)
next
  case (Cons e es)
  from Cons.prems have e: "unitEvent s e" and es: "unitRun (step s e) es" by simp_all
  from step_box [OF Cons.prems(1) e] es show ?case
    unfolding run_Cons by (rule Cons.IH)
qed

text \<open>
  C10. Whatever \<open>Math.random()\<close> returns in its range, the target that \<open>generateTarget\<close>
  produces has x between -5 and 5, which is half of \<open>SPAWN_AREA_WIDTH\<close> on either side,
  y between 1.2 and 3.7, a band 2.5 tall that is not \<open>SPAWN_AREA_HEIGHT\<close>, and z equal to
  -12, which is \<open>-SPAWN_DISTANCE\<close>. Hence every live target of every state that a run from
  the initial state reaches lies in that box.
\<close>

theorem spawn_bounds:
  "(unitDraw d \<longrightarrow>
      (case position (generateTarget l d) of (x, y, z) \<Rightarrow>
         - 5 \<le> x \<and> x \<le> 5 \<and> 1.2 \<le> y \<and> y \<le> 3.7 \<and> z = - 12)) \<and>
   SPAWN_AREA_WIDTH / 2 = 5 \<and> - SPAWN_DISTANCE = - 12 \<and>
   (3.7 - 1.2 :: real) = 2.5 \<and> (2.5 :: real) \<noteq> SPAWN_AREA_HEIGHT \<and>
   (unitRun initSession evs \<longrightarrow>
      (\<forall>t\<in>set (targets (app (run initSession evs))). inSpawnBox t))"
proof -
  have gen: "unitDraw d \<longrightarrow>
      (case position (generateTarget l d) of (x, y, z) \<Rightarrow>
         - 5 \<le> x \<and> x \<le> 5 \<and> 1.2 \<le> y \<and> y \<le> 3.7 \<and> z = - 12)"
    using generateTarget_box [of d l] by (auto simp: inSpawnBox_def)
  have cs: "SPAWN_AREA_WIDTH / 2 = 5" "- SPAWN_DISTANCE = - 12"
    "(3.7 - 1.2 :: real) = 2.5" "(2.5 :: real) \<noteq> SPAWN_AREA_HEIGHT"
    by (simp_all add: SPAWN_AREA_WIDTH_def SPAWN_DISTANCE_def SPAWN_AREA_HEIGHT_def)
  have "\<forall>t\<in>set (targets (app initSession)). inSpawnBox t"
    by (simp add: initSession_def initApp_def)
  then have reach: "unitRun initSession evs \<longrightarrow>
      (\<forall>t\<in>set (targets (app (run initSession evs))). inSpawnBox t)"
    using run_box [of initSession evs] by blast
  from gen cs reach show ?thesis by blast
qed

theorem spawn_bounds_witness:
  "unitDraw (mkDraw 0 ''a'' 0) \<and>
   position (generateTarget [] (mkDraw 0 ''a'' 0)) = (- 5, 2, - 12) \<and>
   unitRun initSession scenario \<and>
   list_all inSpawnBox (targets (app (run initSession scenario))) \<and>
   map position (targets (app (run initSession scenario))) =
     [(2, 2, - 12), (- 2, 2, - 12), (0, 2, - 12)]"
proof -
  have u: "unitDraw (mkDraw 0 ''a'' 0)" by (simp add: unitDraw_def mkDraw_def)
  have p: "position (generateTarget [] (mkDraw 0 ''a'' 0)) = (- 5, 2, - 12)"
    by (simp add: model_defs mkDraw_def)
  have r: "unitRun initSession scenario"
    by (simp add: model_defs session_defs unitDraw_def sqrt_289 upt_rec)
  have m: "map position (targets (app (run initSession scenario))) =
      [(2, 2, - 12), (- 2, 2, - 12), (0, 2, - 12)]"
    by (simp add: model_defs session_defs sqrt_289 upt_rec)
  from spawn_bounds [of "mkDraw 0 ''a'' 0" "[]" scenario] r
  have "list_all inSpawnBox (targets (app (run initSession scenario)))"
    by (simp add: list_all_iff)
  with u p r m show ?thesis by blast
qed


end
